theory Spec2Isabelle
  imports Complex_Main "HOL-Library.Product_Lexorder"
begin

section \<open>Values, errors and arrays\<close>

text \<open>
  The script \<^verbatim>\<open>experiments/10_end_to_end/10_end_to_end.py\<close> works on pandas data
  frames, numpy arrays and \<^verbatim>\<open>scipy.interpolate.RegularGridInterpolator\<close> objects.
  Numbers are modelled as real numbers: the arithmetic is the exact one, rounding is not
  modelled. A float that may be not-a-number or infinite (the flux that the forward
  model returns, the observed flux) has the type \<open>flt\<close>; a missing cell of a data frame
  (\<^verbatim>\<open>NaN\<close>/\<^verbatim>\<open>NA\<close>) is \<open>None\<close>.

  The exceptions that the modelled code can raise are the built-in ones of Python.
\<close>

datatype error = ValueError | IndexError

datatype flt = Fin real | PosInf | NegInf | NaN

type_synonym vec4 = "real \<times> real \<times> real \<times> real"

definition ch0 :: "vec4 \<Rightarrow> real" where
  "ch0 v = (case v of (a, s, g, c) \<Rightarrow> a)"

definition ch1 :: "vec4 \<Rightarrow> real" where
  "ch1 v = (case v of (a, s, g, c) \<Rightarrow> s)"

definition ch2 :: "vec4 \<Rightarrow> real" where
  "ch2 v = (case v of (a, s, g, c) \<Rightarrow> g)"

definition ch3 :: "vec4 \<Rightarrow> real" where
  "ch3 v = (case v of (a, s, g, c) \<Rightarrow> c)"

definition vscale :: "real \<Rightarrow> vec4 \<Rightarrow> vec4" where
  "vscale w v = (case v of (a, s, g, c) \<Rightarrow> (a * w, s * w, g * w, c * w))"

definition vadd :: "vec4 \<Rightarrow> vec4 \<Rightarrow> vec4" where
  "vadd u v = (case u of (a, s, g, c) \<Rightarrow> case v of (a', s', g', c') \<Rightarrow>
     (a + a', s + s', g + g', c + c'))"

text \<open>
  \<^verbatim>\<open>np.vstack(arrays)\<close> raises \<^verbatim>\<open>ValueError\<close> ("need at least one array to
  concatenate") on an empty sequence, and when the rows differ in length.
\<close>

definition vstack :: "'a list list \<Rightarrow> error + 'a list list" where
  "vstack rows =
     (if rows = [] then Inl ValueError
      else if \<forall>r \<in> set rows. length r = length (hd rows) then Inr rows
      else Inl ValueError)"

text \<open>The same for rows of four channels, which always agree in length.\<close>

definition vstack4 :: "vec4 list \<Rightarrow> error + vec4 list" where
  "vstack4 rows = (if rows = [] then Inl ValueError else Inr rows)"

text \<open>
  \<^verbatim>\<open>np.nan_to_num(x, nan=1)\<close>: not-a-number becomes 1; the infinities become the
  largest and the smallest finite value of the array's type, here float64.
\<close>

definition float64_max :: real where
  "float64_max = (2 - 1 / 2 ^ 52) * 2 ^ 1023"

definition nan_to_num :: "flt \<Rightarrow> flt" where
  "nan_to_num x =
     (case x of
        Fin r \<Rightarrow> Fin r
      | PosInf \<Rightarrow> Fin float64_max
      | NegInf \<Rightarrow> Fin (- float64_max)
      | NaN \<Rightarrow> Fin 1)"

section \<open>The interpolator of one line\<close>

text \<open>
  A \<^verbatim>\<open>RegularGridInterpolator\<close> over the axes (teff, logg, Z) with four channels per
  node and \<^verbatim>\<open>method='linear'\<close>, \<^verbatim>\<open>bounds_error=True\<close> (the defaults the script
  leaves in place). The node values are kept as numpy keeps them: one flat sequence in
  row-major order, node \<open>(i, j, k)\<close> at position \<open>(i * ng + j) * nz + k\<close>.
  The class is scipy's; its behaviour is written down here as scipy documents and
  implements it (version 1.10 and later, where an axis of one point is interpolated as a
  constant). The constructor establishes that \<open>node_values\<close> has one entry per node.
\<close>

record rgi =
  axis_teff :: "real list"
  axis_logg :: "real list"
  axis_Z :: "real list"
  node_values :: "vec4 list"

type_synonym point = "real \<times> real \<times> real"

definition strictly_ascending :: "real list \<Rightarrow> bool" where
  "strictly_ascending g = sorted_wrt (<) g"

text \<open>
  The constructor checks that every axis is strictly ascending and that the values have
  the shape of the grid. (Recent versions of scipy also take a strictly descending axis
  and flip it; \<open>create_interpolators\<close> passes such an axis only when two rows of the
  grid-point frame coincide.)
\<close>

definition RegularGridInterpolator ::
  "real list \<times> real list \<times> real list \<Rightarrow> vec4 list \<Rightarrow> error + rgi" where
  "RegularGridInterpolator points vals =
     (case points of (t, g, z) \<Rightarrow>
        if \<not> (strictly_ascending t \<and> strictly_ascending g \<and> strictly_ascending z)
          then Inl ValueError
        else if length vals \<noteq> length t * length g * length z then Inl ValueError
        else Inr \<lparr>axis_teff = t, axis_logg = g, axis_Z = z, node_values = vals\<rparr>)"

text \<open>
  The interval of an in-bounds coordinate: the index \<open>i\<close> with
  \<open>g ! i \<le> x < g ! (i + 1)\<close>, the last interval being closed on the right.
\<close>

definition find_interval :: "real list \<Rightarrow> real \<Rightarrow> nat" where
  "find_interval g x =
     (if x = last g then length g - 2
      else length (takeWhile (\<lambda>v. v \<le> x) g) - 1)"

text \<open>
  Per axis: the lower index, the upper index and the normalised distance. On an axis of
  one point both indices denote that point and the distance is 0.
\<close>

definition find_indices :: "real list \<Rightarrow> real \<Rightarrow> nat \<times> nat \<times> real" where
  "find_indices g x =
     (if length g = 1 then (0, 0, 0)
      else let i = find_interval g x
           in (i, i + 1, (x - g ! i) / (g ! (i + 1) - g ! i)))"

definition value_at :: "rgi \<Rightarrow> nat \<times> nat \<times> nat \<Rightarrow> vec4" where
  "value_at I idx = (case idx of (i, j, k) \<Rightarrow>
     node_values I ! ((i * length (axis_logg I) + j) * length (axis_Z I) + k))"

text \<open>
  The corners of the cell with their weights, in the order of
  \<^verbatim>\<open>itertools.product\<close>, and the weighted sum over them.
\<close>

definition hypercube ::
  "nat \<times> nat \<times> real \<Rightarrow> nat \<times> nat \<times> real \<Rightarrow> nat \<times> nat \<times> real \<Rightarrow>
     ((nat \<times> nat \<times> nat) \<times> real) list" where
  "hypercube T G Zs =
     (case T of (i0, i1, yt) \<Rightarrow> case G of (j0, j1, yg) \<Rightarrow> case Zs of (k0, k1, yz) \<Rightarrow>
        [((i, j, k), 1 * wt * wg * wz).
           (i, wt) \<leftarrow> [(i0, 1 - yt), (i1, yt)],
           (j, wg) \<leftarrow> [(j0, 1 - yg), (j1, yg)],
           (k, wz) \<leftarrow> [(k0, 1 - yz), (k1, yz)]])"

definition evaluate_linear :: "rgi \<Rightarrow> point \<Rightarrow> vec4" where
  "evaluate_linear I p = (case p of (t, g, z) \<Rightarrow>
     foldl (\<lambda>acc (idx, w). vadd acc (vscale w (value_at I idx))) (0, 0, 0, 0)
       (hypercube (find_indices (axis_teff I) t) (find_indices (axis_logg I) g)
          (find_indices (axis_Z I) z)))"

definition in_bounds :: "rgi \<Rightarrow> point \<Rightarrow> bool" where
  "in_bounds I p = (case p of (t, g, z) \<Rightarrow>
     hd (axis_teff I) \<le> t \<and> t \<le> last (axis_teff I) \<and>
     hd (axis_logg I) \<le> g \<and> g \<le> last (axis_logg I) \<and>
     hd (axis_Z I) \<le> z \<and> z \<le> last (axis_Z I))"

text \<open>
  Calling the interpolator on \<open>n\<close> points gives an array of shape \<open>(n, 4)\<close>. The bounds
  check reads the first and the last point of every axis (\<^verbatim>\<open>IndexError\<close> on an empty
  axis) and raises \<^verbatim>\<open>ValueError\<close> when a point is out of bounds.
\<close>

definition rgi_call :: "rgi \<Rightarrow> point list \<Rightarrow> error + vec4 list" where
  "rgi_call I pts =
     (if axis_teff I = [] \<or> axis_logg I = [] \<or> axis_Z I = [] then Inl IndexError
      else if \<not> (\<forall>p \<in> set pts. in_bounds I p) then Inl ValueError
      else Inr (map (evaluate_linear I) pts))"

section \<open>Reconstruction of spectra\<close>

text \<open>
  The forward model \<^verbatim>\<open>SparseLinearEmulator\<close> is imported from the \<^verbatim>\<open>blase\<close> package and
  is a parameter here: a function from the wavelength grid and the state dictionary to
  the flux, which may hold not-a-number and infinite entries.
\<close>

record state_dict =
  amplitudes :: "real list"
  sigma_widths :: "real list"
  gamma_widths :: "real list"
  lam_centers :: "real list"

type_synonym forward_model = "real list \<Rightarrow> state_dict \<Rightarrow> flt list"

definition make_state :: "vec4 list \<Rightarrow> state_dict" where
  "make_state output =
     \<lparr>amplitudes = map ch0 output, sigma_widths = map ch1 output,
      gamma_widths = map ch2 output, lam_centers = map ch3 output\<rparr>"

text \<open>\<^verbatim>\<open>interpolator(point).squeeze()\<close> for one point: the four channels at the point.\<close>

definition rgi_call1 :: "rgi \<Rightarrow> point \<Rightarrow> error + vec4" where
  "rgi_call1 I p = (case rgi_call I [p] of Inl e \<Rightarrow> Inl e | Inr rows \<Rightarrow> Inr (hd rows))"

text \<open>
  The list comprehension of \<^verbatim>\<open>reconstruct1\<close>: the interpolators are called in order,
  and a result is kept when its first channel differs from -1000.
\<close>

fun gather1 :: "rgi list \<Rightarrow> point \<Rightarrow> error + vec4 list" where
  "gather1 [] p = Inr []"
| "gather1 (I # Is) p =
     (case rgi_call1 I p of
        Inl e \<Rightarrow> Inl e
      | Inr r \<Rightarrow>
          (case gather1 Is p of
             Inl e \<Rightarrow> Inl e
           | Inr out \<Rightarrow> Inr (if ch0 r \<noteq> - 1000 then r # out else out)))"

definition reconstruct1 ::
  "forward_model \<Rightarrow> real list \<Rightarrow> point \<Rightarrow> rgi list \<Rightarrow> error + flt list" where
  "reconstruct1 SLE wl_grid point interpolator_list =
     (case gather1 interpolator_list point of
        Inl e \<Rightarrow> Inl e
      | Inr rs \<Rightarrow>
          (case vstack4 rs of
             Inl e \<Rightarrow> Inl e
           | Inr output \<Rightarrow> Inr (map nan_to_num (SLE wl_grid (make_state output)))))"

text \<open>
  \<^verbatim>\<open>interpolator(points).squeeze()\<close> for a batch: \<^verbatim>\<open>squeeze\<close> removes every axis of
  length one, so the result of a batch of one point has the shape \<open>(4,)\<close> and iterating
  over it yields four scalars; any other batch yields its rows. Indexing a scalar raises
  \<^verbatim>\<open>IndexError\<close>.
\<close>

datatype item = Scalar real | Row vec4

definition squeeze :: "vec4 list \<Rightarrow> item list" where
  "squeeze rows =
     (case rows of
        [(a, s, g, c)] \<Rightarrow> [Scalar a, Scalar s, Scalar g, Scalar c]
      | _ \<Rightarrow> map Row rows)"

text \<open>The inner loop of \<^verbatim>\<open>reconstructn\<close> over \<^verbatim>\<open>enumerate(results)\<close>.\<close>

fun scatter :: "nat \<Rightarrow> item list \<Rightarrow> vec4 list list \<Rightarrow> error + vec4 list list" where
  "scatter i [] raw_outputs = Inr raw_outputs"
| "scatter i (Scalar x # rs) raw_outputs = Inl IndexError"
| "scatter i (Row r # rs) raw_outputs =
     (if ch0 r > - 100
      then (if i < length raw_outputs
            then scatter (Suc i) rs (raw_outputs[i := raw_outputs ! i @ [r]])
            else Inl IndexError)
      else scatter (Suc i) rs raw_outputs)"

text \<open>The outer loop over the interpolators.\<close>

fun gathern :: "rgi list \<Rightarrow> point list \<Rightarrow> vec4 list list \<Rightarrow> error + vec4 list list" where
  "gathern [] points raw_outputs = Inr raw_outputs"
| "gathern (I # Is) points raw_outputs =
     (case rgi_call I points of
        Inl e \<Rightarrow> Inl e
      | Inr results \<Rightarrow>
          (case scatter 0 (squeeze results) raw_outputs of
             Inl e \<Rightarrow> Inl e
           | Inr raw' \<Rightarrow> gathern Is points raw'))"

fun traverse :: "('a \<Rightarrow> error + 'b) \<Rightarrow> 'a list \<Rightarrow> error + 'b list" where
  "traverse f [] = Inr []"
| "traverse f (x # xs) =
     (case f x of
        Inl e \<Rightarrow> Inl e
      | Inr y \<Rightarrow> (case traverse f xs of Inl e \<Rightarrow> Inl e | Inr ys \<Rightarrow> Inr (y # ys)))"

definition reconstructn ::
  "forward_model \<Rightarrow> real list \<Rightarrow> point list \<Rightarrow> rgi list \<Rightarrow> error + flt list list" where
  "reconstructn SLE wl_grid points interpolator_list =
     (case gathern interpolator_list points (replicate (length points) []) of
        Inl e \<Rightarrow> Inl e
      | Inr raw_outputs \<Rightarrow>
          (case traverse vstack4 raw_outputs of
             Inl e \<Rightarrow> Inl e
           | Inr outputs \<Rightarrow>
               (case vstack (map (\<lambda>output. SLE wl_grid (make_state output)) outputs) of
                  Inl e \<Rightarrow> Inl e
                | Inr rows \<Rightarrow> Inr (map (map nan_to_num) rows))))"

text \<open>
  What the theorems say about a query: the point lies within the bounds of every
  interpolator of the bank, and the lines that pass the filter of either path.
\<close>

definition point_in_grid :: "rgi list \<Rightarrow> point \<Rightarrow> bool" where
  "point_in_grid bank p =
     (\<forall>I \<in> set bank. axis_teff I \<noteq> [] \<and> axis_logg I \<noteq> [] \<and> axis_Z I \<noteq> [] \<and> in_bounds I p)"

definition survivors1 :: "rgi list \<Rightarrow> point \<Rightarrow> vec4 list" where
  "survivors1 bank p = filter (\<lambda>r. ch0 r \<noteq> - 1000) (map (\<lambda>I. evaluate_linear I p) bank)"

definition survivorsn :: "rgi list \<Rightarrow> point \<Rightarrow> vec4 list" where
  "survivorsn bank p = filter (\<lambda>r. ch0 r > - 100) (map (\<lambda>I. evaluate_linear I p) bank)"

text \<open>
  One pass of the inner loop over a batch result that kept its rows: row \<open>i\<close> is
  appended to the \<open>i\<close>-th output when its first channel exceeds -100.
\<close>

definition scatter_rows :: "vec4 list \<Rightarrow> vec4 list list \<Rightarrow> vec4 list list" where
  "scatter_rows rows raw = map2 (\<lambda>acc r. if ch0 r > - 100 then acc @ [r] else acc) raw rows"

section \<open>The loss of the solver\<close>

text \<open>
  The arithmetic of numpy on floats that may be infinite or not-a-number, without
  rounding and overflow: what \<^verbatim>\<open>rms_loss\<close> applies to the flux and the observed data.
\<close>

fun flt_add :: "flt \<Rightarrow> flt \<Rightarrow> flt" where
  "flt_add NaN y = NaN"
| "flt_add x NaN = NaN"
| "flt_add (Fin a) (Fin b) = Fin (a + b)"
| "flt_add PosInf NegInf = NaN"
| "flt_add NegInf PosInf = NaN"
| "flt_add PosInf y = PosInf"
| "flt_add x PosInf = PosInf"
| "flt_add NegInf y = NegInf"
| "flt_add x NegInf = NegInf"

fun flt_neg :: "flt \<Rightarrow> flt" where
  "flt_neg (Fin a) = Fin (- a)"
| "flt_neg PosInf = NegInf"
| "flt_neg NegInf = PosInf"
| "flt_neg NaN = NaN"

definition flt_sub :: "flt \<Rightarrow> flt \<Rightarrow> flt" where
  "flt_sub x y = flt_add x (flt_neg y)"

text \<open>\<^verbatim>\<open>x ** 2\<close>.\<close>

fun flt_square :: "flt \<Rightarrow> flt" where
  "flt_square (Fin a) = Fin (a ^ 2)"
| "flt_square PosInf = PosInf"
| "flt_square NegInf = PosInf"
| "flt_square NaN = NaN"

text \<open>\<^verbatim>\<open>x.mean()\<close>: the sum divided by the number of entries, not-a-number for none.\<close>

fun flt_div_count :: "flt \<Rightarrow> nat \<Rightarrow> flt" where
  "flt_div_count (Fin a) n = (if n = 0 then (if a = 0 then NaN else if a > 0 then PosInf else NegInf)
                              else Fin (a / real n))"
| "flt_div_count x n = x"

definition flt_mean :: "flt list \<Rightarrow> flt" where
  "flt_mean xs = flt_div_count (foldl flt_add (Fin 0) xs) (length xs)"

text \<open>\<^verbatim>\<open>x ** 0.5\<close> on a float64 scalar.\<close>

fun flt_pow_half :: "flt \<Rightarrow> flt" where
  "flt_pow_half (Fin a) = (if a < 0 then NaN else Fin (a powr (1 / 2)))"
| "flt_pow_half PosInf = PosInf"
| "flt_pow_half NegInf = PosInf"
| "flt_pow_half NaN = NaN"

text \<open>
  \<^verbatim>\<open>a - b\<close> on one-dimensional arrays, with numpy's broadcasting: equal lengths, or one
  of the two of length one; \<^verbatim>\<open>ValueError\<close> otherwise.
\<close>

definition array_sub :: "flt list \<Rightarrow> flt list \<Rightarrow> error + flt list" where
  "array_sub a b =
     (if length a = length b then Inr (map2 flt_sub a b)
      else if length b = 1 then Inr (map (\<lambda>x. flt_sub x (hd b)) a)
      else if length a = 1 then Inr (map (\<lambda>y. flt_sub (hd a) y) b)
      else Inl ValueError)"

text \<open>The function that \<^verbatim>\<open>rms_loss\<close> returns, applied to a point.\<close>

definition rms_loss ::
  "forward_model \<Rightarrow> real list \<Rightarrow> flt list \<Rightarrow> rgi list \<Rightarrow> point \<Rightarrow> error + flt" where
  "rms_loss SLE wl_grid data interpolator_list point =
     (case reconstruct1 SLE wl_grid point interpolator_list of
        Inl e \<Rightarrow> Inl e
      | Inr flux \<Rightarrow>
          (case array_sub flux data of
             Inl e \<Rightarrow> Inl e
           | Inr d \<Rightarrow> Inr (flt_pow_half (flt_mean (map flt_square d)))))"

text \<open>
  The root-mean-square error as the specification words it: the square root of the mean
  of the squared pointwise differences of two arrays of equal length.
\<close>

fun flt_sqrt :: "flt \<Rightarrow> flt" where
  "flt_sqrt (Fin a) = (if a < 0 then NaN else Fin (sqrt a))"
| "flt_sqrt PosInf = PosInf"
| "flt_sqrt NegInf = NaN"
| "flt_sqrt NaN = NaN"

definition spec_rmse :: "flt list \<Rightarrow> flt list \<Rightarrow> flt" where
  "spec_rmse xs ys = flt_sqrt (flt_mean (map2 (\<lambda>x y. flt_square (flt_sub x y)) xs ys))"

section \<open>A small bank\<close>

text \<open>
  Two interpolators over the grid teff \<open>{5000, 6000, 7000}\<close>, logg \<open>{4, 5}\<close>,
  Z \<open>{0}\<close>: one for a line fitted at all six grid points with the amplitudes 1 to 6,
  one for a line that is absent at \<open>(7000, 5, 0)\<close>; and a forward model that yields
  not-a-number at the wavelength 0.
\<close>

definition ex_full :: rgi where
  "ex_full = \<lparr>axis_teff = [5000, 6000, 7000], axis_logg = [4, 5], axis_Z = [0],
     node_values = [(1, 10, 20, 8000), (2, 11, 21, 8001), (3, 12, 22, 8002),
                    (4, 13, 23, 8003), (5, 14, 24, 8004), (6, 15, 25, 8005)]\<rparr>"

definition ex_hole :: rgi where
  "ex_hole = \<lparr>axis_teff = [5000, 6000, 7000], axis_logg = [4, 5], axis_Z = [0],
     node_values = [(1, 30, 40, 9000), (2, 31, 41, 9001), (3, 32, 42, 9002),
                    (4, 33, 43, 9003), (5, 34, 44, 9004), (- 1000, - 1000, - 1000, - 1000)]\<rparr>"

definition ex_SLE :: forward_model where
  "ex_SLE wl st = map (\<lambda>w. if w = 0 then NaN else Fin (1 - sum_list (amplitudes st) / w)) wl"

section \<open>Properties of the reconstruction\<close>

lemmas ex_simps = ex_full_def ex_hole_def evaluate_linear_def find_indices_def find_interval_def
  hypercube_def value_at_def vadd_def vscale_def in_bounds_def point_in_grid_def survivors1_def
  survivorsn_def ch0_def ch1_def ch2_def ch3_def

subsection \<open>One point\<close>

lemma rgi_call1_in_grid:
  "axis_teff I \<noteq> [] \<Longrightarrow> axis_logg I \<noteq> [] \<Longrightarrow> axis_Z I \<noteq> [] \<Longrightarrow> in_bounds I p \<Longrightarrow>
     rgi_call1 I p = Inr (evaluate_linear I p)"
  by (simp add: rgi_call1_def rgi_call_def)

lemma gather1_in_grid:
  "point_in_grid bank p \<Longrightarrow> gather1 bank p = Inr (survivors1 bank p)"
proof (induction bank)
  case Nil
  show ?case by (simp add: survivors1_def)
next
  case (Cons I Is)
  from Cons.prems have here: "rgi_call1 I p = Inr (evaluate_linear I p)"
    by (simp add: point_in_grid_def rgi_call1_in_grid)
  from Cons.prems have "point_in_grid Is p"
    by (simp add: point_in_grid_def)
  then have rest: "gather1 Is p = Inr (survivors1 Is p)"
    by (rule Cons.IH)
  show ?case
    by (simp add: here rest survivors1_def)
qed

lemma nan_to_num_finite: "\<exists>r. nan_to_num x = Fin r"
  by (cases x) (simp_all add: nan_to_num_def)

lemma nan_to_num_not_NaN: "NaN \<notin> set (map nan_to_num xs)"
  by (auto simp: nan_to_num_def split: flt.splits)

lemma reconstruct1_in_grid:
  "point_in_grid bank p \<Longrightarrow>
     reconstruct1 SLE wl_grid p bank =
       (case vstack4 (survivors1 bank p) of
          Inl e \<Rightarrow> Inl e
        | Inr output \<Rightarrow> Inr (map nan_to_num (SLE wl_grid (make_state output))))"
  by (simp add: reconstruct1_def gather1_in_grid)

subsection \<open>A batch of points\<close>

lemma squeeze_single: "squeeze [v] = [Scalar (ch0 v), Scalar (ch1 v), Scalar (ch2 v), Scalar (ch3 v)]"
  by (cases v) (simp add: squeeze_def ch0_def ch1_def ch2_def ch3_def)

lemma rgi_call_length: "rgi_call I pts = Inr rows \<Longrightarrow> length rows = length pts"
  by (auto simp: rgi_call_def split: if_splits)

lemma gathern_single:
  "gathern (I # Is) [p] raw = (case rgi_call I [p] of Inl e \<Rightarrow> Inl e | Inr rows \<Rightarrow> Inl IndexError)"
proof (cases "rgi_call I [p]")
  case (Inl e)
  then show ?thesis by simp
next
  case (Inr rows)
  then have "length rows = 1" using rgi_call_length by fastforce
  then obtain v where "rows = [v]" by (cases rows) auto
  with Inr show ?thesis by (simp add: squeeze_single)
qed

lemma scatter_Row:
  "length pre = i \<Longrightarrow> length raw = length rows \<Longrightarrow>
     scatter i (map Row rows) (pre @ raw) = Inr (pre @ scatter_rows rows raw)"
proof (induction rows arbitrary: i pre raw)
  case Nil
  then show ?case by (simp add: scatter_rows_def)
next
  case (Cons r rs)
  then obtain a as where raw: "raw = a # as" and len: "length as = length rs"
    by (cases raw) auto
  let ?a' = "if ch0 r > - 100 then a @ [r] else a"
  have step: "scatter i (map Row (r # rs)) (pre @ raw) = scatter (Suc i) (map Row rs) ((pre @ [?a']) @ as)"
    unfolding Cons.prems(1) [symmetric] by (simp add: raw)
  have "scatter (Suc i) (map Row rs) ((pre @ [?a']) @ as) = Inr ((pre @ [?a']) @ scatter_rows rs as)"
    by (rule Cons.IH) (simp_all add: Cons.prems(1) [symmetric] len)
  with step show ?case by (simp add: raw scatter_rows_def)
qed

lemma squeeze_batch: "length rows \<noteq> 1 \<Longrightarrow> squeeze rows = map Row rows"
  by (cases rows; cases "tl rows") (auto simp: squeeze_def)

lemma rgi_call_in_grid:
  "\<forall>p \<in> set pts. point_in_grid (I # Is) p \<Longrightarrow> pts \<noteq> [] \<Longrightarrow>
     rgi_call I pts = Inr (map (evaluate_linear I) pts)"
  by (cases pts) (auto simp: rgi_call_def point_in_grid_def)

lemma gathern_batch:
  assumes "length pts \<noteq> 1" "pts \<noteq> []" "\<forall>p \<in> set pts. point_in_grid bank p" "length raw = length pts"
  shows "gathern bank pts raw = Inr (map2 (\<lambda>acc p. acc @ survivorsn bank p) raw pts)"
  using assms
proof (induction bank arbitrary: raw)
  case Nil
  have "map2 (\<lambda>acc p. acc) raw pts = raw"
    using Nil.prems(4) by (intro nth_equalityI) simp_all
  then show ?case by (simp add: survivorsn_def)
next
  case (Cons I Is)
  have call: "rgi_call I pts = Inr (map (evaluate_linear I) pts)"
    using Cons.prems by (simp add: rgi_call_in_grid)
  have sq: "squeeze (map (evaluate_linear I) pts) = map Row (map (evaluate_linear I) pts)"
    using Cons.prems(1) by (simp add: squeeze_batch)
  have sc: "scatter 0 (squeeze (map (evaluate_linear I) pts)) raw
              = Inr (scatter_rows (map (evaluate_linear I) pts) raw)"
    using scatter_Row [of "[]" 0 raw "map (evaluate_linear I) pts"] Cons.prems(4)
    by (simp add: sq)
  have grid: "\<forall>p \<in> set pts. point_in_grid Is p"
    using Cons.prems(3) by (simp add: point_in_grid_def)
  have ih: "gathern Is pts (scatter_rows (map (evaluate_linear I) pts) raw)
              = Inr (map2 (\<lambda>acc p. acc @ survivorsn Is p)
                       (scatter_rows (map (evaluate_linear I) pts) raw) pts)"
    by (rule Cons.IH) (use Cons.prems grid in \<open>simp_all add: scatter_rows_def\<close>)
  have eq: "map2 (\<lambda>acc p. acc @ survivorsn Is p) (scatter_rows (map (evaluate_linear I) pts) raw) pts
              = map2 (\<lambda>acc p. acc @ survivorsn (I # Is) p) raw pts"
    using Cons.prems(4)
    by (intro nth_equalityI) (auto simp: scatter_rows_def survivorsn_def)
  show ?case by (simp add: call sc ih eq)
qed

lemma traverse_vstack4:
  "\<forall>r \<in> set rows. r \<noteq> [] \<Longrightarrow> traverse vstack4 rows = Inr rows"
  by (induction rows) (auto simp: vstack4_def)

lemma map2_replicate_Nil:
  "map2 (\<lambda>acc p. acc @ f p) (replicate (length pts) []) pts = map f pts"
  by (induction pts) auto

lemma reconstructn_in_grid:
  assumes "2 \<le> length pts" and "\<forall>p \<in> set pts. point_in_grid bank p"
  shows "reconstructn SLE wl_grid pts bank =
       (case traverse vstack4 (map (survivorsn bank) pts) of
          Inl e \<Rightarrow> Inl e
        | Inr outputs \<Rightarrow>
            (case vstack (map (\<lambda>output. SLE wl_grid (make_state output)) outputs) of
               Inl e \<Rightarrow> Inl e
             | Inr rows \<Rightarrow> Inr (map (map nan_to_num) rows)))"
proof -
  have ne: "pts \<noteq> []" and n1: "length pts \<noteq> 1"
    using assms(1) by auto
  have "gathern bank pts (replicate (length pts) []) = Inr (map (survivorsn bank) pts)"
    using gathern_batch [OF n1 ne assms(2), of "replicate (length pts) []"]
    by (simp add: map2_replicate_Nil)
  then show ?thesis
    by (simp add: reconstructn_def)
qed

subsection \<open>The claims about reconstruction\<close>

text \<open>
  Claim C1. \<^verbatim>\<open>reconstruct1\<close> at a point and \<^verbatim>\<open>reconstructn\<close> at the batch that holds
  only that point are claimed to give equal flux. They do not: at the in-bounds point
  \<open>(5500, 4, 0)\<close> of the small bank the first returns a flux and the second raises
  \<^verbatim>\<open>IndexError\<close>, because \<^verbatim>\<open>squeeze\<close> has removed the point axis.
\<close>

theorem reconstruct_one_and_many_diverge:
  "reconstruct1 ex_SLE [0, 1, 2] (5500, 4, 0) [ex_full, ex_hole] = Inr [Fin 1, Fin (- 3), Fin (- 1)] \<and>
   reconstructn ex_SLE [0, 1, 2] [(5500, 4, 0)] [ex_full, ex_hole] = Inl IndexError"
proof -
  have g: "point_in_grid [ex_full, ex_hole] (5500, 4, 0)"
    by (simp add: ex_simps)
  have s: "survivors1 [ex_full, ex_hole] (5500, 4, 0) = [(2, 11, 21, 8001), (2, 31, 41, 9001)]"
    by (simp add: ex_simps)
  have one: "reconstruct1 ex_SLE [0, 1, 2] (5500, 4, 0) [ex_full, ex_hole] = Inr [Fin 1, Fin (- 3), Fin (- 1)]"
    by (simp add: reconstruct1_in_grid [OF g] s vstack4_def ex_SLE_def nan_to_num_def make_state_def ch0_def)
  have "in_bounds ex_full (5500, 4, 0)"
    by (simp add: ex_simps)
  then have many: "reconstructn ex_SLE [0, 1, 2] [(5500, 4, 0)] [ex_full, ex_hole] = Inl IndexError"
    by (simp add: reconstructn_def gathern_single rgi_call_def ex_full_def del: gathern.simps)
  from one many show ?thesis by simp
qed

text \<open>
  Claim C2, as stated, for every in-bounds point: \<^verbatim>\<open>reconstruct1\<close> keeps the outputs whose
  first channel is not -1000, stacks them, evaluates the forward model and replaces
  not-a-number by 1. At the in-bounds point \<open>(7000, 5, 0)\<close> of a bank whose only line
  is absent there, nothing is stacked and no forward model is evaluated:
  \<^verbatim>\<open>np.vstack\<close> raises.
\<close>

theorem reconstruct1_pipeline_counterexample:
  "point_in_grid [ex_hole] (7000, 5, 0) \<and>
   reconstruct1 ex_SLE [1, 2] (7000, 5, 0) [ex_hole] = Inl ValueError \<and>
   reconstruct1 ex_SLE [1, 2] (7000, 5, 0) [ex_hole] \<noteq>
     Inr (map nan_to_num (ex_SLE [1, 2] (make_state (survivors1 [ex_hole] (7000, 5, 0)))))"
proof -
  have g: "point_in_grid [ex_hole] (7000, 5, 0)"
    by (simp add: ex_simps)
  have s: "survivors1 [ex_hole] (7000, 5, 0) = []"
    by (simp add: ex_simps)
  show ?thesis
    using g by (simp add: reconstruct1_in_grid [OF g] s vstack4_def)
qed

text \<open>
  Claim C2, amended: for every in-bounds query point at which at least one interpolator
  output has a first channel other than -1000, \<^verbatim>\<open>reconstruct1\<close> returns the forward
  model's flux for the state stacked from exactly those outputs (amplitudes,
  sigma_widths, gamma_widths, lam_centers, in the order of the bank), with every
  not-a-number entry replaced by 1.
\<close>

theorem reconstruct1_pipeline:
  assumes "point_in_grid bank p" and "survivors1 bank p \<noteq> []"
  shows "reconstruct1 SLE wl_grid p bank =
           Inr (map nan_to_num (SLE wl_grid
             \<lparr>amplitudes = map ch0 (survivors1 bank p),
              sigma_widths = map ch1 (survivors1 bank p),
              gamma_widths = map ch2 (survivors1 bank p),
              lam_centers = map ch3 (survivors1 bank p)\<rparr>))
         \<and> nan_to_num NaN = Fin 1"
  using assms
  by (simp add: reconstruct1_def gather1_in_grid vstack4_def make_state_def nan_to_num_def)

theorem reconstruct1_pipeline_witness:
  "point_in_grid [ex_full, ex_hole] (7000, 5, 0) \<and>
   survivors1 [ex_full, ex_hole] (7000, 5, 0) \<noteq> [] \<and>
   reconstruct1 ex_SLE [0, 1, 2] (7000, 5, 0) [ex_full, ex_hole] = Inr [Fin 1, Fin (- 5), Fin (- 2)]"
proof -
  have g: "point_in_grid [ex_full, ex_hole] (7000, 5, 0)"
    by (simp add: ex_simps)
  have s: "survivors1 [ex_full, ex_hole] (7000, 5, 0) = [(6, 15, 25, 8005)]"
    by (simp add: ex_simps)
  have n: "survivors1 [ex_full, ex_hole] (7000, 5, 0) \<noteq> []"
    by (simp add: s)
  show ?thesis
    using g n reconstruct1_pipeline [OF g n, of ex_SLE "[0, 1, 2]"]
    by (simp add: s ex_SLE_def nan_to_num_def ch0_def)
qed

text \<open>
  Claim C3, as stated, for every batch of in-bounds points: \<^verbatim>\<open>reconstructn\<close> returns one
  flux row per point. For the batch of the two in-bounds points \<open>(7000, 5, 0)\<close> and
  \<open>(5000, 4, 0)\<close> and a bank whose only line is absent at the first, the whole batch
  fails with \<^verbatim>\<open>ValueError\<close>.
\<close>

theorem reconstructn_batch_counterexample:
  "point_in_grid [ex_hole] (7000, 5, 0) \<and> point_in_grid [ex_hole] (5000, 4, 0) \<and>
   reconstructn ex_SLE [1, 2] [(7000, 5, 0), (5000, 4, 0)] [ex_hole] = Inl ValueError"
proof -
  have g: "\<forall>p \<in> set [(7000, 5, 0), (5000, 4, 0)]. point_in_grid [ex_hole] p"
    by (simp add: ex_simps)
  have s: "survivorsn [ex_hole] (7000, 5, 0) = []"
    by (simp add: ex_simps)
  have l: "2 \<le> length [(7000, 5, 0), (5000, 4, 0) :: point]"
    by simp
  show ?thesis
    using g by (simp add: reconstructn_in_grid [OF l g] s vstack4_def)
qed

text \<open>
  Claim C3, amended: for every batch of two or more in-bounds query points, at each of
  which at least one interpolator output has a first channel greater than -100, and a
  forward model whose flux has the length of the wavelength grid, \<^verbatim>\<open>reconstructn\<close>
  returns one flux row per point in the order of the points: the forward model's flux
  for the state stacked from exactly the outputs of that point that pass the threshold,
  with not-a-number replaced by 1.
\<close>

theorem reconstructn_batch:
  assumes "2 \<le> length points"
    and "\<forall>p \<in> set points. point_in_grid bank p \<and> survivorsn bank p \<noteq> []"
    and "\<forall>st. length (SLE wl_grid st) = length wl_grid"
  shows "reconstructn SLE wl_grid points bank =
           Inr (map (\<lambda>p. map nan_to_num (SLE wl_grid (make_state (survivorsn bank p)))) points)"
proof -
  have ne: "points \<noteq> []" and n1: "length points \<noteq> 1"
    using assms(1) by auto
  have g: "gathern bank points (replicate (length points) []) = Inr (map (survivorsn bank) points)"
    using gathern_batch [OF n1 ne, of bank "replicate (length points) []"] assms(2)
    by (simp add: map2_replicate_Nil)
  have t: "traverse vstack4 (map (survivorsn bank) points) = Inr (map (survivorsn bank) points)"
    using assms(2) by (intro traverse_vstack4) auto
  have v: "vstack (map (\<lambda>p. SLE wl_grid (make_state (survivorsn bank p))) points)
             = Inr (map (\<lambda>p. SLE wl_grid (make_state (survivorsn bank p))) points)"
    using ne assms(3) by (simp add: vstack_def hd_map)
  show ?thesis
    by (simp add: reconstructn_def g t comp_def v)
qed

theorem reconstructn_batch_witness:
  "2 \<le> length [(7000, 5, 0), (6900, 5, 0) :: point] \<and>
   point_in_grid [ex_full, ex_hole] (7000, 5, 0) \<and>
   survivorsn [ex_full, ex_hole] (7000, 5, 0) \<noteq> [] \<and>
   point_in_grid [ex_full, ex_hole] (6900, 5, 0) \<and>
   survivorsn [ex_full, ex_hole] (6900, 5, 0) \<noteq> [] \<and>
   (\<forall>st. length (ex_SLE [0, 1, 2] st) = length [0, 1, 2 :: real]) \<and>
   reconstructn ex_SLE [0, 1, 2] [(7000, 5, 0), (6900, 5, 0)] [ex_full, ex_hole] =
     Inr [[Fin 1, Fin (- 5), Fin (- 2)], [Fin 1, Fin (- (24 / 5)), Fin (- (19 / 10))]]"
proof -
  have l: "2 \<le> length [(7000, 5, 0), (6900, 5, 0) :: point]"
    by simp
  have s1: "survivorsn [ex_full, ex_hole] (7000, 5, 0) = [(6, 15, 25, 8005)]"
    by (simp add: ex_simps)
  have s2: "survivorsn [ex_full, ex_hole] (6900, 5, 0) = [(29 / 5, 74 / 5, 124 / 5, 40024 / 5)]"
    by (simp add: ex_simps)
  have g: "\<forall>p \<in> set [(7000, 5, 0), (6900, 5, 0)].
      point_in_grid [ex_full, ex_hole] p \<and> survivorsn [ex_full, ex_hole] p \<noteq> []"
    by (simp add: s1 s2) (simp add: ex_simps)
  have c: "\<forall>st. length (ex_SLE [0, 1, 2] st) = length [0, 1, 2 :: real]"
    by (simp add: ex_SLE_def)
  show ?thesis
    using l g c
      reconstructn_batch [where points = "[(7000, 5, 0), (6900, 5, 0)]"
        and bank = "[ex_full, ex_hole]" and SLE = ex_SLE and wl_grid = "[0, 1, 2]"]
    by (simp add: s1 s2 ex_SLE_def nan_to_num_def make_state_def ch0_def)
qed

text \<open>
  Claim C7. For every in-bounds query point at which at least one line survives the
  filter, \<^verbatim>\<open>reconstruct1\<close> returns a flux array that has the length of the wavelength
  grid and holds no not-a-number. The length is the forward model's: it is assumed to
  return a flux of the length of the wavelength grid, as its interface demands.
\<close>

theorem reconstruct1_length_no_nan:
  assumes "point_in_grid bank p" and "survivors1 bank p \<noteq> []"
    and "\<forall>st. length (SLE wl_grid st) = length wl_grid"
  shows "\<exists>flux. reconstruct1 SLE wl_grid p bank = Inr flux \<and>
           length flux = length wl_grid \<and> NaN \<notin> set flux"
  using assms nan_to_num_not_NaN
  by (simp add: reconstruct1_def gather1_in_grid vstack4_def)

theorem reconstruct1_length_no_nan_witness:
  "point_in_grid [ex_full, ex_hole] (5500, 4, 0) \<and>
   survivors1 [ex_full, ex_hole] (5500, 4, 0) \<noteq> [] \<and>
   (\<forall>st. length (ex_SLE [0, 1, 2] st) = length [0, 1, 2 :: real]) \<and>
   (\<exists>flux. reconstruct1 ex_SLE [0, 1, 2] (5500, 4, 0) [ex_full, ex_hole] = Inr flux \<and>
      length flux = length [0, 1, 2 :: real] \<and> NaN \<notin> set flux)"
proof -
  have g: "point_in_grid [ex_full, ex_hole] (5500, 4, 0)"
    by (simp add: ex_simps)
  have n: "survivors1 [ex_full, ex_hole] (5500, 4, 0) \<noteq> []"
    by (simp add: ex_simps)
  have c: "\<forall>st. length (ex_SLE [0, 1, 2] st) = length [0, 1, 2 :: real]"
    by (simp add: ex_SLE_def)
  show ?thesis
    using g n c
      reconstruct1_length_no_nan [where bank = "[ex_full, ex_hole]" and p = "(5500, 4, 0)"
        and SLE = ex_SLE and wl_grid = "[0, 1, 2]"]
    by blast
qed

text \<open>
  Claim C9, as stated: when no line survives the filter, \<^verbatim>\<open>reconstruct1\<close> fails with a
  dedicated error of the empty line set, or returns a flat continuum, by an explicit
  policy. The script has neither: the failure is the \<^verbatim>\<open>ValueError\<close> that
  \<^verbatim>\<open>np.vstack\<close> raises on an empty sequence, and no flux of ones is returned.
\<close>

theorem reconstruct1_no_lines_counterexample:
  "survivors1 [ex_hole] (7000, 5, 0) = [] \<and>
   reconstruct1 ex_SLE [1, 2, 3] (7000, 5, 0) [ex_hole] = Inl ValueError \<and>
   reconstruct1 ex_SLE [1, 2, 3] (7000, 5, 0) [ex_hole] \<noteq> Inr [Fin 1, Fin 1, Fin 1]"
proof -
  have g: "point_in_grid [ex_hole] (7000, 5, 0)"
    by (simp add: ex_simps)
  have s: "survivors1 [ex_hole] (7000, 5, 0) = []"
    by (simp add: ex_simps)
  show ?thesis
    by (simp add: reconstruct1_in_grid [OF g] s vstack4_def)
qed

text \<open>
  Claim C9, amended: when the query point is in bounds and no interpolator output has a
  first channel other than -1000, \<^verbatim>\<open>reconstruct1\<close> fails with the \<^verbatim>\<open>ValueError\<close> of
  \<^verbatim>\<open>np.vstack\<close>; the forward model is not evaluated.
\<close>

theorem reconstruct1_no_lines:
  assumes "point_in_grid bank p" and "survivors1 bank p = []"
  shows "reconstruct1 SLE wl_grid p bank = Inl ValueError"
  using assms by (simp add: reconstruct1_def gather1_in_grid vstack4_def)

theorem reconstruct1_no_lines_witness:
  "point_in_grid [ex_hole, ex_hole] (7000, 5, 0) \<and>
   survivors1 [ex_hole, ex_hole] (7000, 5, 0) = [] \<and>
   reconstruct1 ex_SLE [1, 2] (7000, 5, 0) [ex_hole, ex_hole] = Inl ValueError"
proof -
  have g: "point_in_grid [ex_hole, ex_hole] (7000, 5, 0)"
    by (simp add: ex_simps)
  have s: "survivors1 [ex_hole, ex_hole] (7000, 5, 0) = []"
    by (simp add: ex_simps)
  show ?thesis
    using g s reconstruct1_no_lines [OF g s, of ex_SLE "[1, 2]"] by simp
qed

text \<open>
  Claim C10. For every batch of exactly one query point \<^verbatim>\<open>reconstructn\<close> fails:
  with an empty bank in \<^verbatim>\<open>np.vstack\<close>, otherwise at the first interpolator, either
  with the error of its call or, when the call succeeds, with the \<^verbatim>\<open>IndexError\<close> of
  indexing a scalar of the squeezed result.
\<close>

theorem reconstructn_single_point_fails:
  "(\<exists>e. reconstructn SLE wl_grid [p] bank = Inl e) \<and>
   reconstructn SLE wl_grid [p] bank =
     (case bank of
        [] \<Rightarrow> Inl ValueError
      | I # Is \<Rightarrow> (case rgi_call I [p] of Inl e \<Rightarrow> Inl e | Inr rows \<Rightarrow> Inl IndexError))"
proof (cases bank)
  case Nil
  then show ?thesis by (simp add: reconstructn_def vstack4_def)
next
  case (Cons I Is)
  then show ?thesis
    by (simp add: reconstructn_def gathern_single del: gathern.simps split: sum.splits)
qed

theorem reconstructn_single_point_fails_witness:
  "in_bounds ex_full (5500, 4, 0) \<and>
   reconstructn ex_SLE [0, 1, 2] [(5500, 4, 0)] [ex_full, ex_hole] = Inl IndexError"
proof -
  have b: "in_bounds ex_full (5500, 4, 0)"
    by (simp add: ex_simps)
  then have "rgi_call ex_full [(5500, 4, 0)] = Inr [evaluate_linear ex_full (5500, 4, 0)]"
    by (simp add: rgi_call_def) (simp add: ex_full_def)
  then show ?thesis
    using b reconstructn_single_point_fails [of ex_SLE "[0, 1, 2]" "(5500, 4, 0)" "[ex_full, ex_hole]"]
    by simp
qed

section \<open>Properties of the loss\<close>

fun flt_nonneg :: "flt \<Rightarrow> bool" where
  "flt_nonneg (Fin a) = (0 \<le> a)"
| "flt_nonneg PosInf = True"
| "flt_nonneg NegInf = False"
| "flt_nonneg NaN = True"

lemma flt_square_nonneg: "flt_nonneg (flt_square x)"
  by (cases x) simp_all

lemma flt_add_nonneg: "flt_nonneg x \<Longrightarrow> flt_nonneg y \<Longrightarrow> flt_nonneg (flt_add x y)"
  by (cases x; cases y) simp_all

lemma foldl_flt_add_nonneg:
  "flt_nonneg acc \<Longrightarrow> \<forall>x \<in> set xs. flt_nonneg x \<Longrightarrow> flt_nonneg (foldl flt_add acc xs)"
  by (induction xs arbitrary: acc) (simp_all add: flt_add_nonneg)

lemma flt_div_count_nonneg: "flt_nonneg x \<Longrightarrow> flt_nonneg (flt_div_count x n)"
  by (cases x) simp_all

lemma flt_mean_nonneg: "\<forall>x \<in> set xs. flt_nonneg x \<Longrightarrow> flt_nonneg (flt_mean xs)"
  by (simp add: flt_mean_def flt_div_count_nonneg foldl_flt_add_nonneg)

lemma flt_pow_half_sqrt: "flt_nonneg x \<Longrightarrow> flt_pow_half x = flt_sqrt x"
  by (cases x) (simp_all add: powr_half_sqrt)

text \<open>
  Claim C6. Where \<^verbatim>\<open>reconstruct1\<close> returns a flux and the observed flux has the same
  length, the loss at the point is the root-mean-square error between the two: the
  square root of the mean of the squared pointwise differences.
\<close>

theorem rms_loss_is_rmse:
  assumes "reconstruct1 SLE wl_grid p bank = Inr flux" and "length data = length flux"
  shows "rms_loss SLE wl_grid data bank p = Inr (spec_rmse flux data)"
proof -
  let ?sq = "map2 (\<lambda>x y. flt_square (flt_sub x y)) flux data"
  have sq: "map flt_square (map2 flt_sub flux data) = ?sq"
    by auto
  have "\<forall>x \<in> set ?sq. flt_nonneg x"
    by (auto simp: flt_square_nonneg)
  then have "flt_pow_half (flt_mean ?sq) = flt_sqrt (flt_mean ?sq)"
    by (intro flt_pow_half_sqrt flt_mean_nonneg)
  then show ?thesis
    using assms by (simp add: rms_loss_def array_sub_def spec_rmse_def sq del: map_map)
qed

theorem rms_loss_is_rmse_witness:
  "reconstruct1 ex_SLE [0, 1, 2] (5500, 4, 0) [ex_full, ex_hole] = Inr [Fin 1, Fin (- 3), Fin (- 1)] \<and>
   length [Fin 1, Fin 0, Fin (- 1)] = length [Fin 1, Fin (- 3), Fin (- 1)] \<and>
   rms_loss ex_SLE [0, 1, 2] [Fin 1, Fin 0, Fin (- 1)] [ex_full, ex_hole] (5500, 4, 0) = Inr (Fin (sqrt 3))"
proof -
  have g: "point_in_grid [ex_full, ex_hole] (5500, 4, 0)"
    by (simp add: ex_simps)
  have s: "survivors1 [ex_full, ex_hole] (5500, 4, 0) = [(2, 11, 21, 8001), (2, 31, 41, 9001)]"
    by (simp add: ex_simps)
  have r: "reconstruct1 ex_SLE [0, 1, 2] (5500, 4, 0) [ex_full, ex_hole] = Inr [Fin 1, Fin (- 3), Fin (- 1)]"
    by (simp add: reconstruct1_in_grid [OF g] s vstack4_def ex_SLE_def nan_to_num_def make_state_def ch0_def)
  have l: "length [Fin 1, Fin 0, Fin (- 1)] = length [Fin 1, Fin (- 3), Fin (- 1)]"
    by simp
  have v: "spec_rmse [Fin 1, Fin (- 3), Fin (- 1)] [Fin 1, Fin 0, Fin (- 1)] = Fin (sqrt 3)"
    by (simp add: spec_rmse_def flt_mean_def flt_sub_def)
  show ?thesis
    using r l rms_loss_is_rmse [OF r l] by (simp add: v)
qed

end
